theory Spec2Isabelle
  imports Main
begin

section \<open>The query engine of fireman (src/firestore/firestore.ts)\<close>

text \<open>
  The module parses a FiremanQL query string with an external parser, classifies the
  parsed component sequence as a document or a collection query (\<open>getQueryType\<close>),
  walks the sequence into a Firestore reference (\<open>parseQuery\<close>) and either fetches the
  reference once (\<open>getResult\<close>) or installs a snapshot listener (\<open>setListener\<close>).

  The parser, the Firestore client and the classes \<open>Document\<close> and \<open>QueryResult\<close> are
  not part of the file. The model takes them as parameters: the record \<open>collaborators\<close>
  holds one field for every call the file makes on them. A call that can throw returns
  \<open>error + 'a\<close>, with \<open>Inl\<close> for the thrown value.
\<close>

subsection \<open>Errors and their propagation\<close>

text \<open>
  The only error the file raises itself is \<^verbatim>\<open>Error('No such document')\<close> (lines 44 and
  162). Everything else that is thrown comes from a collaborator and is an \<open>Error\<close> with
  some other message.
\<close>

datatype error = Error string

definition bindE :: "error + 'a \<Rightarrow> ('a \<Rightarrow> error + 'b) \<Rightarrow> error + 'b" where
  "bindE m f = (case m of Inl e \<Rightarrow> Inl e | Inr x \<Rightarrow> f x)"

subsection \<open>Parsed components\<close>

text \<open>
  \<open>ComponentType\<close> (lines 62-67) has the four values \<^verbatim>\<open>literal\<close>, \<^verbatim>\<open>all\<close>,
  \<^verbatim>\<open>collectionExpression\<close> and \<^verbatim>\<open>documentExpression\<close>. The wildcard is called \<open>AllC\<close>
  here, since \<open>All\<close> is the universal quantifier of HOL.

  The members of a collection expression are told apart by their \<^verbatim>\<open>type\<close> string in the
  chain of lines 122-135: \<^verbatim>\<open>where\<close>, \<^verbatim>\<open>limit\<close>, \<^verbatim>\<open>order\<close>; the chain has no final
  \<^verbatim>\<open>else\<close>, so a member of any other type is passed over (\<open>OtherExpression\<close>). The
  value of a filter is whatever the parser produced (type \<open>'v\<close>).
\<close>

datatype 'v expressionComponent =
    Where string string 'v
  | Limit int
  | Order string int
  | OtherExpression string

datatype 'v component =
    Literal string
  | AllC
  | CollectionExpression "'v expressionComponent list"
  | DocumentExpression "string list"

datatype QueryType = DOCUMENT | COLLECTION

subsection \<open>getQueryType (lines 74-78)\<close>

fun isLiteral :: "'v component \<Rightarrow> bool" where
  "isLiteral (Literal url) = True"
| "isLiteral AllC = False"
| "isLiteral (CollectionExpression es) = False"
| "isLiteral (DocumentExpression ps) = False"

definition getQueryType :: "'v component list \<Rightarrow> QueryType" where
  "getQueryType components =
     (if length (filter isLiteral components) mod 2 \<noteq> 0 then COLLECTION else DOCUMENT)"

text \<open>The count of the specification: the number of components of variant \<open>Literal\<close>.\<close>

fun literalCount :: "'v component list \<Rightarrow> nat" where
  "literalCount [] = 0"
| "literalCount (Literal url # cs) = Suc (literalCount cs)"
| "literalCount (c # cs) = literalCount cs"

subsection \<open>The collaborators\<close>

text \<open>
  One field for every call the file makes outside itself. \<open>'r\<close> is the type of Firestore
  handles (the \<^verbatim>\<open>any\<close>-typed variable \<^verbatim>\<open>reference\<close>: the Firestore root, a collection or
  document reference, a query), \<open>'s\<close> the type of snapshots, \<open>'d\<close> the class \<open>Document\<close>.

  \<^item> \<open>parse\<close>: \<^verbatim>\<open>FQLParser.parse(queryString)\<close>, line 20.
  \<^item> \<open>firestore\<close>: the outcome of lines 86-98, which select the current project, initialise
    its Firebase app on first use and obtain \<^verbatim>\<open>FirebaseAdmin.firestore(app)\<close>: the root
    handle, or what \<^verbatim>\<open>require\<close> or the initialisation threw.
  \<^item> \<open>ref_collection\<close>, \<open>ref_doc\<close>: \<^verbatim>\<open>reference.collection(url)\<close>, \<^verbatim>\<open>reference.doc(url)\<close>.
  \<^item> \<open>instanceofCollectionReference\<close>: the test of line 120.
  \<^item> \<open>ref_where\<close>, \<open>ref_limit\<close>, \<open>ref_orderBy\<close>: the three refinement calls.
  \<^item> \<open>ref_get\<close>: \<^verbatim>\<open>await reference.get()\<close>; \<open>Inl\<close> when the call throws or the promise is
    rejected.
  \<^item> \<open>ref_onSnapshot\<close>: whether \<^verbatim>\<open>reference.onSnapshot(next, error)\<close> throws (\<open>Some e\<close>) or
    registers the two callbacks (\<open>None\<close>).
  \<^item> \<open>snapshot_exists\<close>, \<open>snapshot_ref\<close>: the properties \<^verbatim>\<open>exists\<close> (read as a condition)
    and \<^verbatim>\<open>ref\<close> of a snapshot.
  \<^item> \<open>snapshot_forEach\<close>: the document snapshots that \<^verbatim>\<open>snapshot.forEach\<close> passes to its
    callback, in the order of the calls; \<open>Inl\<close> when the call throws.
  \<^item> \<open>fromDocumentReference\<close>, \<open>setData\<close>: the two operations of the class \<open>Document\<close>
    (document.ts, not among the sources), taken as they are called; \<open>setData\<close> returns
    the document it has populated.
\<close>

datatype direction = Asc | Desc

record ('r, 's, 'v, 'd) collaborators =
  parse :: "string \<Rightarrow> error + 'v component list"
  firestore :: "error + 'r"
  ref_collection :: "'r \<Rightarrow> string \<Rightarrow> error + 'r"
  ref_doc :: "'r \<Rightarrow> string \<Rightarrow> error + 'r"
  instanceofCollectionReference :: "'r \<Rightarrow> bool"
  ref_where :: "'r \<Rightarrow> string \<Rightarrow> string \<Rightarrow> 'v \<Rightarrow> error + 'r"
  ref_limit :: "'r \<Rightarrow> int \<Rightarrow> error + 'r"
  ref_orderBy :: "'r \<Rightarrow> string \<Rightarrow> direction \<Rightarrow> error + 'r"
  ref_get :: "'r \<Rightarrow> error + 's"
  ref_onSnapshot :: "'r \<Rightarrow> error option"
  snapshot_exists :: "'s \<Rightarrow> bool"
  snapshot_ref :: "'s \<Rightarrow> 'r"
  snapshot_forEach :: "'s \<Rightarrow> error + 's list"
  fromDocumentReference :: "'r \<Rightarrow> 'd"
  setData :: "'d \<Rightarrow> 's \<Rightarrow> string list \<Rightarrow> 'd"

text \<open>
  Modelled from the spec: the class \<open>QueryResult\<close> (query-result.ts is not among the
  sources). The result model of the specification has the two fields \<open>documents\<close> and
  \<open>projected\<close>; the constructor receives them in this order (lines 28, 42 and 57).
\<close>

record 'd QueryResult =
  documents :: "'d list"
  projected :: bool

subsection \<open>parseQuery (lines 83-150)\<close>

text \<open>
  The variables of the loop. The function returns \<open>reference\<close>, \<open>specificProperties\<close> and
  \<open>documentExpression\<close>; the model returns the whole record, whose field \<open>collection\<close> no
  caller reads.
\<close>

record 'r parse_state =
  reference :: 'r
  collection :: bool
  specificProperties :: "string list"
  documentExpression :: bool

text \<open>One member of a collection expression (lines 122-135).\<close>

fun applyExpressionComponent ::
  "('r, 's, 'v, 'd) collaborators \<Rightarrow> 'r \<Rightarrow> 'v expressionComponent \<Rightarrow> error + 'r" where
  "applyExpressionComponent env r (Where field operator val) = ref_where env r field operator val"
| "applyExpressionComponent env r (Limit n) = ref_limit env r n"
| "applyExpressionComponent env r (Order field dir) =
     ref_orderBy env r field (if dir = 1 then Asc else Desc)"
| "applyExpressionComponent env r (OtherExpression t) = Inr r"

text \<open>The inner loop (lines 121-136).\<close>

fun applyExpression ::
  "('r, 's, 'v, 'd) collaborators \<Rightarrow> 'r \<Rightarrow> 'v expressionComponent list \<Rightarrow> error + 'r" where
  "applyExpression env r [] = Inr r"
| "applyExpression env r (e # es) =
     (case applyExpressionComponent env r e of
        Inl err \<Rightarrow> Inl err
      | Inr r' \<Rightarrow> applyExpression env r' es)"

text \<open>The body of the outer loop: the \<^verbatim>\<open>switch\<close> of lines 105-143.\<close>

fun parseComponent ::
  "('r, 's, 'v, 'd) collaborators \<Rightarrow> 'r parse_state \<Rightarrow> 'v component \<Rightarrow> error + 'r parse_state" where
  "parseComponent env st (Literal url) =
     (if collection st
      then bindE (ref_collection env (reference st) url)
             (\<lambda>r. Inr (st\<lparr>collection := False, reference := r\<rparr>))
      else bindE (ref_doc env (reference st) url)
             (\<lambda>r. Inr (st\<lparr>collection := True, reference := r\<rparr>)))"
| "parseComponent env st AllC = Inr (st\<lparr>collection := True\<rparr>)"
| "parseComponent env st (CollectionExpression es) =
     (if instanceofCollectionReference env (reference st)
      then bindE (applyExpression env (reference st) es) (\<lambda>r. Inr (st\<lparr>reference := r\<rparr>))
      else Inr st)"
| "parseComponent env st (DocumentExpression ps) =
     Inr (st\<lparr>specificProperties := ps, documentExpression := True\<rparr>)"

text \<open>The outer loop (line 104).\<close>

fun parseLoop ::
  "('r, 's, 'v, 'd) collaborators \<Rightarrow> 'r parse_state \<Rightarrow> 'v component list \<Rightarrow> error + 'r parse_state" where
  "parseLoop env st [] = Inr st"
| "parseLoop env st (c # cs) =
     (case parseComponent env st c of
        Inl err \<Rightarrow> Inl err
      | Inr st' \<Rightarrow> parseLoop env st' cs)"

definition initialState :: "'r \<Rightarrow> 'r parse_state" where
  "initialState root =
     \<lparr>reference = root, collection = True, specificProperties = [], documentExpression = False\<rparr>"

definition parseQuery ::
  "('r, 's, 'v, 'd) collaborators \<Rightarrow> 'v component list \<Rightarrow> error + 'r parse_state" where
  "parseQuery env components =
     bindE (firestore env) (\<lambda>root. parseLoop env (initialState root) components)"

subsection \<open>getResult (lines 152-173)\<close>

text \<open>The callback of \<^verbatim>\<open>snapshot.forEach\<close> at lines 166-170, run over the visited snapshots.\<close>

fun pushDocuments ::
  "('r, 's, 'v, 'd) collaborators \<Rightarrow> string list \<Rightarrow> 'd list \<Rightarrow> 's list \<Rightarrow> 'd list" where
  "pushDocuments env props docs [] = docs"
| "pushDocuments env props docs (docSnapshot # rest) =
     pushDocuments env props
       (docs @ [setData env (fromDocumentReference env (snapshot_ref env docSnapshot))
                  docSnapshot props])
       rest"

definition getResult ::
  "('r, 's, 'v, 'd) collaborators \<Rightarrow> string \<Rightarrow> QueryType \<Rightarrow> 'r \<Rightarrow> string list \<Rightarrow> error + 'd list" where
  "getResult env queryString queryType ref props =
     (if queryType = DOCUMENT
      then bindE (ref_get env ref) (\<lambda>snapshot.
             if snapshot_exists env snapshot
             then Inr [setData env (fromDocumentReference env ref) snapshot props]
             else Inl (Error ''No such document''))
      else bindE (ref_get env ref) (\<lambda>snapshot.
             bindE (snapshot_forEach env snapshot) (\<lambda>visited.
               Inr (pushDocuments env props [] visited))))"

subsection \<open>The process state of live mode\<close>

text \<open>
  A change listener is a callback of the caller; \<open>'l\<close> is the type of listener
  identities, and a call \<^verbatim>\<open>onChangeListener(result, error)\<close> is recorded as the listener
  with its two arguments, \<^verbatim>\<open>null\<close> being \<open>None\<close>. The listener is an observer: the model
  does not consider a listener that throws.

  \<^verbatim>\<open>reference.onSnapshot(next, error)\<close> registers the two callbacks with the store and
  returns a function that cancels this registration. The model keeps the
  registrations in a table in the order in which they were made, and the handle that
  \<^verbatim>\<open>onSnapshot\<close> returns is the index of the new registration in the table: every call
  returns a handle of its own. A registration records which of the two branches of
  \<open>setListener\<close> made it and the variables its callbacks close over.

  The state of the process is the module variable \<^verbatim>\<open>unsubscribeListener\<close> of line 9
  (\<open>None\<close> while it is undefined), the table of registrations, and the calls made on
  change listeners so far.
\<close>

type_synonym 'd listener_args = "'d QueryResult option \<times> error option"

record ('r, 'l) registration =
  reg_queryType :: QueryType
  reg_reference :: 'r
  reg_specificProperties :: "string list"
  reg_listener :: 'l

record ('r, 'l, 'd) process =
  unsubscribeListener :: "nat option"
  registrations :: "('r, 'l) registration list"
  calls :: "('l \<times> 'd listener_args) list"

subsection \<open>setListener (lines 36-60)\<close>

definition setListener ::
  "('r, 's, 'v, 'd) collaborators \<Rightarrow> ('r, 'l, 'd) process \<Rightarrow> QueryType \<Rightarrow> 'r \<Rightarrow> string list \<Rightarrow> 'l
   \<Rightarrow> error + ('r, 'l, 'd) process" where
  "setListener env w queryType ref props listener =
     (if queryType = DOCUMENT
      then (case ref_onSnapshot env ref of
              Some e \<Rightarrow> Inl e
            | None \<Rightarrow>
                Inr (w\<lparr>registrations := registrations w @
                          [\<lparr>reg_queryType = DOCUMENT, reg_reference = ref,
                            reg_specificProperties = props, reg_listener = listener\<rparr>],
                        unsubscribeListener := Some (length (registrations w))\<rparr>))
      else (case ref_onSnapshot env ref of
              Some e \<Rightarrow> Inl e
            | None \<Rightarrow>
                Inr (w\<lparr>registrations := registrations w @
                          [\<lparr>reg_queryType = COLLECTION, reg_reference = ref,
                            reg_specificProperties = props, reg_listener = listener\<rparr>],
                        unsubscribeListener := Some (length (registrations w))\<rparr>)))"

text \<open>The callback of \<^verbatim>\<open>snapshot.forEach\<close> at lines 50-56, run over the visited snapshots.\<close>

fun pushExisting ::
  "('r, 's, 'v, 'd) collaborators \<Rightarrow> string list \<Rightarrow> 'd list \<Rightarrow> 's list \<Rightarrow> 'd list" where
  "pushExisting env props docs [] = docs"
| "pushExisting env props docs (documentSnapshot # rest) =
     (if snapshot_exists env documentSnapshot
      then pushExisting env props
             (docs @ [setData env (fromDocumentReference env (snapshot_ref env documentSnapshot))
                        documentSnapshot props])
             rest
      else pushExisting env props docs rest)"

text \<open>
  The first callback of each branch (lines 38-45 and 48-58): the arguments with which it
  calls the change listener, or \<open>Inl\<close> when it throws before calling it.
\<close>

definition onNext ::
  "('r, 's, 'v, 'd) collaborators \<Rightarrow> QueryType \<Rightarrow> string list \<Rightarrow> 's \<Rightarrow> error + 'd listener_args" where
  "onNext env queryType props snapshot =
     (if queryType = DOCUMENT
      then (if snapshot_exists env snapshot
            then Inr (Some \<lparr>documents =
                              [setData env (fromDocumentReference env (snapshot_ref env snapshot))
                                 snapshot props],
                            projected = (length props > 0)\<rparr>,
                      None)
            else Inr (None, Some (Error ''No such document'')))
      else bindE (snapshot_forEach env snapshot) (\<lambda>visited.
             Inr (Some \<lparr>documents = pushExisting env props [] visited,
                        projected = (length props > 0)\<rparr>,
                  None)))"

text \<open>The second callback of both branches (lines 46 and 58).\<close>

definition onError :: "error \<Rightarrow> 'd listener_args" where
  "onError e = (None, Some e)"

text \<open>
  What the store hands to a registration: a snapshot for the first callback, or an error
  for the second. \<open>notify\<close> is the store calling the callbacks of registration \<open>h\<close>. A
  callback that throws returns to the store without having called the listener.
\<close>

datatype 's notification = Snapshot 's | Failure error

definition notify ::
  "('r, 's, 'v, 'd) collaborators \<Rightarrow> ('r, 'l, 'd) process \<Rightarrow> nat \<Rightarrow> 's notification
   \<Rightarrow> ('r, 'l, 'd) process" where
  "notify env w h n =
     (if h < length (registrations w)
      then (case n of
              Snapshot snapshot \<Rightarrow>
                (case onNext env (reg_queryType (registrations w ! h))
                        (reg_specificProperties (registrations w ! h)) snapshot of
                   Inl e \<Rightarrow> w
                 | Inr args \<Rightarrow> w\<lparr>calls := calls w @ [(reg_listener (registrations w ! h), args)]\<rparr>)
            | Failure e \<Rightarrow>
                w\<lparr>calls := calls w @ [(reg_listener (registrations w ! h), onError e)]\<rparr>)
      else w)"

subsection \<open>query (lines 18-34)\<close>

text \<open>
  The promise that \<open>query\<close> returns, once settled: resolved with a result (one-shot mode)
  or with nothing (live mode, \<open>None\<close>), or rejected.
\<close>

datatype 'd settled = Resolved "'d QueryResult option" | Rejected error

text \<open>The \<^verbatim>\<open>try\<close> block (lines 20-29).\<close>

definition tryQuery ::
  "('r, 's, 'v, 'd) collaborators \<Rightarrow> ('r, 'l, 'd) process \<Rightarrow> string \<Rightarrow> 'l option
   \<Rightarrow> error + ('d QueryResult option \<times> ('r, 'l, 'd) process)" where
  "tryQuery env w queryString onChangeListener =
     bindE (parse env queryString) (\<lambda>queryComponents.
       bindE (parseQuery env queryComponents) (\<lambda>parsed.
         (case onChangeListener of
            Some listener \<Rightarrow>
              bindE (setListener env w (getQueryType queryComponents) (reference parsed)
                       (specificProperties parsed) listener)
                (\<lambda>w'. Inr (None, w'))
          | None \<Rightarrow>
              bindE (getResult env queryString (getQueryType queryComponents) (reference parsed)
                       (specificProperties parsed))
                (\<lambda>result. Inr (Some \<lparr>documents = result, projected = documentExpression parsed\<rparr>,
                               w)))))"

text \<open>The whole function, with the \<^verbatim>\<open>catch\<close> block (lines 30-33).\<close>

definition query ::
  "('r, 's, 'v, 'd) collaborators \<Rightarrow> ('r, 'l, 'd) process \<Rightarrow> string \<Rightarrow> 'l option
   \<Rightarrow> 'd settled \<times> ('r, 'l, 'd) process" where
  "query env w queryString onChangeListener =
     (case tryQuery env w queryString onChangeListener of
        Inr (result, w') \<Rightarrow> (Resolved result, w')
      | Inl e \<Rightarrow>
          (Rejected e,
           (case onChangeListener of
              Some listener \<Rightarrow> w\<lparr>calls := calls w @ [(listener, (None, Some e))]\<rparr>
            | None \<Rightarrow> w)))"

text \<open>
  What happens to the process over time: the caller calls \<open>query\<close>, or the store
  notifies one of the registrations. \<open>run\<close> lets a sequence of such events happen.
\<close>

datatype ('l, 's) event = QueryCall string "'l option" | StoreNotification nat "'s notification"

fun run ::
  "('r, 's, 'v, 'd) collaborators \<Rightarrow> ('r, 'l, 'd) process \<Rightarrow> ('l, 's) event list
   \<Rightarrow> ('r, 'l, 'd) process" where
  "run env w [] = w"
| "run env w (QueryCall queryString onChangeListener # rest) =
     run env (snd (query env w queryString onChangeListener)) rest"
| "run env w (StoreNotification h n # rest) = run env (notify env w h n) rest"

text \<open>The process at start: line 9 declares the variable without a value.\<close>

definition idle :: "('r, 'l, 'd) process" where
  "idle = \<lparr>unsubscribeListener = None, registrations = [], calls = []\<rparr>"

text \<open>
  The projection that a component sequence asks for, read off the sequence: the field
  list of its last \<open>DocumentExpression\<close>, if it has one.
\<close>

fun lastDocumentExpression :: "'v component list \<Rightarrow> string list option" where
  "lastDocumentExpression [] = None"
| "lastDocumentExpression (c # cs) =
     (case lastDocumentExpression cs of
        Some ps \<Rightarrow> Some ps
      | None \<Rightarrow> (case c of DocumentExpression ps \<Rightarrow> Some ps | _ \<Rightarrow> None))"

subsection \<open>A store to evaluate on\<close>

text \<open>
  Concrete collaborators, on which the theorems below are instantiated. Handles record
  the calls that built them. As in the Firestore client, \<^verbatim>\<open>collection\<close> is a method of the
  root and of document references, \<^verbatim>\<open>doc\<close> of the root and of collection references, the
  refinements are methods of collection references and queries, and a refinement
  returns a query, which is not a collection reference. A call of a method that the
  handle does not have throws. Every collection holds the documents \<open>b\<close> and \<open>a\<close>, which
  the store returns in this order, and every document exists except those named
  \<open>missing\<close>. The parser knows the few query strings listed.
\<close>

datatype sample_ref =
    Root
  | CollectionRef sample_ref string
  | DocumentRef sample_ref string
  | WhereQuery sample_ref string string string
  | LimitQuery sample_ref int
  | OrderQuery sample_ref string direction

datatype sample_snapshot = DocumentSnap sample_ref bool | QuerySnap "sample_snapshot list"

datatype sample_document = Shell sample_ref | Populated sample_ref sample_snapshot "string list"

fun sample_collection :: "sample_ref \<Rightarrow> string \<Rightarrow> error + sample_ref" where
  "sample_collection Root url = Inr (CollectionRef Root url)"
| "sample_collection (DocumentRef p n) url = Inr (CollectionRef (DocumentRef p n) url)"
| "sample_collection r url = Inl (Error ''reference.collection is not a function'')"

fun sample_doc :: "sample_ref \<Rightarrow> string \<Rightarrow> error + sample_ref" where
  "sample_doc Root url = Inr (DocumentRef Root url)"
| "sample_doc (CollectionRef p n) url = Inr (DocumentRef (CollectionRef p n) url)"
| "sample_doc r url = Inl (Error ''reference.doc is not a function'')"

fun sample_isCollection :: "sample_ref \<Rightarrow> bool" where
  "sample_isCollection (CollectionRef p n) = True"
| "sample_isCollection r = False"

fun sample_isQuery :: "sample_ref \<Rightarrow> bool" where
  "sample_isQuery Root = False"
| "sample_isQuery (DocumentRef p n) = False"
| "sample_isQuery r = True"

definition sample_where :: "sample_ref \<Rightarrow> string \<Rightarrow> string \<Rightarrow> string \<Rightarrow> error + sample_ref" where
  "sample_where r field operator val =
     (if sample_isQuery r then Inr (WhereQuery r field operator val)
      else Inl (Error ''reference.where is not a function''))"

definition sample_limit :: "sample_ref \<Rightarrow> int \<Rightarrow> error + sample_ref" where
  "sample_limit r n =
     (if sample_isQuery r then Inr (LimitQuery r n)
      else Inl (Error ''reference.limit is not a function''))"

definition sample_orderBy :: "sample_ref \<Rightarrow> string \<Rightarrow> direction \<Rightarrow> error + sample_ref" where
  "sample_orderBy r field dir =
     (if sample_isQuery r then Inr (OrderQuery r field dir)
      else Inl (Error ''reference.orderBy is not a function''))"

fun sample_get :: "sample_ref \<Rightarrow> error + sample_snapshot" where
  "sample_get Root = Inl (Error ''reference.get is not a function'')"
| "sample_get (DocumentRef p n) = Inr (DocumentSnap (DocumentRef p n) (n \<noteq> ''missing''))"
| "sample_get r =
     Inr (QuerySnap [DocumentSnap (DocumentRef r ''b'') True, DocumentSnap (DocumentRef r ''a'') True])"

fun sample_onSnapshot :: "sample_ref \<Rightarrow> error option" where
  "sample_onSnapshot Root = Some (Error ''reference.onSnapshot is not a function'')"
| "sample_onSnapshot r = None"

fun sample_exists :: "sample_snapshot \<Rightarrow> bool" where
  "sample_exists (DocumentSnap r b) = b"
| "sample_exists (QuerySnap dss) = False"

fun sample_snapshot_ref :: "sample_snapshot \<Rightarrow> sample_ref" where
  "sample_snapshot_ref (DocumentSnap r b) = r"
| "sample_snapshot_ref (QuerySnap dss) = Root"

fun sample_forEach :: "sample_snapshot \<Rightarrow> error + sample_snapshot list" where
  "sample_forEach (QuerySnap dss) = Inr dss"
| "sample_forEach (DocumentSnap r b) = Inl (Error ''snapshot.forEach is not a function'')"

fun sample_location :: "sample_document \<Rightarrow> sample_ref" where
  "sample_location (Shell r) = r"
| "sample_location (Populated r s ps) = r"

definition sample_parse :: "string \<Rightarrow> error + string component list" where
  "sample_parse q =
     (if q = ''/'' then Inr []
      else if q = ''users'' then Inr [Literal ''users'']
      else if q = ''users/abc'' then Inr [Literal ''users'', Literal ''abc'']
      else if q = ''users/missing'' then Inr [Literal ''users'', Literal ''missing'']
      else if q = ''users/*/abc'' then Inr [Literal ''users'', AllC, Literal ''abc'']
      else if q = ''users/abc{}'' then
        Inr [Literal ''users'', Literal ''abc'', DocumentExpression []]
      else if q = ''users/abc{}{name}'' then
        Inr [Literal ''users'', Literal ''abc'', DocumentExpression [],
             DocumentExpression [''name'']]
      else if q = ''users/abc[age > 3]'' then
        Inr [Literal ''users'', Literal ''abc'',
             CollectionExpression [Where ''age'' ''>'' ''3'']]
      else if q = ''users[age > 3, name+, 2, age-, 2]'' then
        Inr [Literal ''users'',
             CollectionExpression [Where ''age'' ''>'' ''3'', Order ''name'' 1, Limit 2,
                                   Order ''age'' (- 1), Limit 2]]
      else Inl (Error ''SyntaxError''))"

definition sample_env ::
  "(sample_ref, sample_snapshot, string, sample_document) collaborators" where
  "sample_env =
     \<lparr>parse = sample_parse,
      firestore = Inr Root,
      ref_collection = sample_collection,
      ref_doc = sample_doc,
      instanceofCollectionReference = sample_isCollection,
      ref_where = sample_where,
      ref_limit = sample_limit,
      ref_orderBy = sample_orderBy,
      ref_get = sample_get,
      ref_onSnapshot = sample_onSnapshot,
      snapshot_exists = sample_exists,
      snapshot_ref = sample_snapshot_ref,
      snapshot_forEach = sample_forEach,
      fromDocumentReference = Shell,
      setData = (\<lambda>d s ps. Populated (sample_location d) s ps)\<rparr>"

section \<open>Properties\<close>

lemma length_filter_isLiteral: "length (filter isLiteral cs) = literalCount cs"
  by (induction cs rule: literalCount.induct) simp_all

text \<open>
  C1. \<open>getQueryType\<close> returns \<open>COLLECTION\<close> when the number of \<open>Literal\<close> components is
  odd and \<open>DOCUMENT\<close> when it is even, zero included. It is a total function of the
  component sequence: it has a value of type \<open>QueryType\<close> on every list, and no branch
  of it can throw.
\<close>

theorem getQueryType_parity:
  "getQueryType cs = (if odd (literalCount cs) then COLLECTION else DOCUMENT)
   \<and> getQueryType (filter (\<lambda>c. \<not> isLiteral c) cs) = DOCUMENT"
  by (simp add: getQueryType_def length_filter_isLiteral odd_iff_mod_2_eq_one)

lemma bindE_simps [simp]: "bindE (Inl e) f = Inl e" "bindE (Inr x) f = f x"
  by (simp_all add: bindE_def)

lemma applyExpression_append:
  "applyExpression env r (es1 @ es2) =
     bindE (applyExpression env r es1) (\<lambda>r'. applyExpression env r' es2)"
  by (induction es1 arbitrary: r) (simp_all split: sum.splits)

lemma applyExpression_single: "applyExpression env r [e] = applyExpressionComponent env r e"
  by (cases "applyExpressionComponent env r e") simp_all

lemma parseLoop_append:
  "parseLoop env st (cs1 @ cs2) = bindE (parseLoop env st cs1) (\<lambda>st'. parseLoop env st' cs2)"
  by (induction cs1 arbitrary: st) (simp_all split: sum.splits)

lemma parseLoop_single: "parseLoop env st [c] = parseComponent env st c"
  by (cases "parseComponent env st c") simp_all

lemma parseQuery_append:
  "parseQuery env (cs1 @ cs2) = bindE (parseQuery env cs1) (\<lambda>st. parseLoop env st cs2)"
  by (cases "firestore env") (simp_all add: parseQuery_def parseLoop_append)

lemma parseQuery_snoc:
  "parseQuery env (cs @ [c]) = bindE (parseQuery env cs) (\<lambda>st. parseComponent env st c)"
  unfolding parseQuery_append parseLoop_single ..

text \<open>
  C2. \<open>parseQuery\<close> starts at the root handle with \<open>collection = True\<close> and processes
  the components in order, each on the state that the components before it produced.
  A \<open>Literal\<close> calls \<^verbatim>\<open>collection(url)\<close> on the cursor and clears the flag when the flag
  was set, and calls \<^verbatim>\<open>doc(url)\<close> on the cursor and sets the flag otherwise; the cursor
  becomes the handle that the call returned. \<open>AllC\<close> sets the flag and makes no call on
  the cursor, which it leaves as it was.
\<close>

theorem parseQuery_navigation:
  "parseQuery env [] =
     bindE (firestore env) (\<lambda>root.
       Inr \<lparr>reference = root, collection = True, specificProperties = [],
            documentExpression = False\<rparr>)
   \<and> parseQuery env (cs @ [Literal url]) =
       bindE (parseQuery env cs) (\<lambda>st.
         if collection st
         then bindE (ref_collection env (reference st) url)
                (\<lambda>r. Inr (st\<lparr>collection := False, reference := r\<rparr>))
         else bindE (ref_doc env (reference st) url)
                (\<lambda>r. Inr (st\<lparr>collection := True, reference := r\<rparr>)))
   \<and> parseQuery env (cs @ [AllC]) =
       bindE (parseQuery env cs) (\<lambda>st. Inr (st\<lparr>collection := True\<rparr>))"
proof (intro conjI)
  show "parseQuery env [] =
     bindE (firestore env) (\<lambda>root.
       Inr \<lparr>reference = root, collection = True, specificProperties = [],
            documentExpression = False\<rparr>)"
    by (simp add: parseQuery_def initialState_def)
next
  show "parseQuery env (cs @ [Literal url]) =
       bindE (parseQuery env cs) (\<lambda>st.
         if collection st
         then bindE (ref_collection env (reference st) url)
                (\<lambda>r. Inr (st\<lparr>collection := False, reference := r\<rparr>))
         else bindE (ref_doc env (reference st) url)
                (\<lambda>r. Inr (st\<lparr>collection := True, reference := r\<rparr>)))"
    unfolding parseQuery_snoc by simp
next
  show "parseQuery env (cs @ [AllC]) =
       bindE (parseQuery env cs) (\<lambda>st. Inr (st\<lparr>collection := True\<rparr>))"
    unfolding parseQuery_snoc by simp
qed

text \<open>
  C3. One-shot execution of a \<open>DOCUMENT\<close> query whose fetch returned a snapshot: when
  the snapshot says that the document does not exist, \<open>getResult\<close> throws
  \<^verbatim>\<open>Error('No such document')\<close> and returns no list; when it exists, the result is the list
  of exactly one document, made from the reference and populated from the snapshot
  with the projection list.
\<close>

theorem getResult_document:
  assumes "ref_get env ref = Inr snapshot"
  shows "getResult env queryString DOCUMENT ref props =
           (if snapshot_exists env snapshot
            then Inr [setData env (fromDocumentReference env ref) snapshot props]
            else Inl (Error ''No such document''))"
  using assms by (simp add: getResult_def)

theorem getResult_document_witness:
  "ref_get sample_env (DocumentRef (CollectionRef Root ''users'') ''missing'') =
     Inr (DocumentSnap (DocumentRef (CollectionRef Root ''users'') ''missing'') False)
   \<and> getResult sample_env ''users/missing'' DOCUMENT
       (DocumentRef (CollectionRef Root ''users'') ''missing'') [] =
     Inl (Error ''No such document'')
   \<and> ref_get sample_env (DocumentRef (CollectionRef Root ''users'') ''abc'') =
     Inr (DocumentSnap (DocumentRef (CollectionRef Root ''users'') ''abc'') True)
   \<and> getResult sample_env ''users/abc'' DOCUMENT
       (DocumentRef (CollectionRef Root ''users'') ''abc'') [''name''] =
     Inr [Populated (DocumentRef (CollectionRef Root ''users'') ''abc'')
            (DocumentSnap (DocumentRef (CollectionRef Root ''users'') ''abc'') True) [''name'']]"
  using getResult_document [of sample_env "DocumentRef (CollectionRef Root ''users'') ''missing''"
      "DocumentSnap (DocumentRef (CollectionRef Root ''users'') ''missing'') False"
      "''users/missing''" "[]"]
    getResult_document [of sample_env "DocumentRef (CollectionRef Root ''users'') ''abc''"
      "DocumentSnap (DocumentRef (CollectionRef Root ''users'') ''abc'') True"
      "''users/abc''" "[''name'']"]
  by (simp add: sample_env_def)

lemma pushDocuments_map:
  "pushDocuments env props docs visited =
     docs @ map (\<lambda>ds. setData env (fromDocumentReference env (snapshot_ref env ds)) ds props) visited"
  by (induction visited arbitrary: docs) simp_all

text \<open>
  C4. One-shot execution of a \<open>COLLECTION\<close> query: the result has one document for each
  snapshot that the store returned, in the order of the store, none dropped, merged or
  moved.
\<close>

theorem getResult_collection:
  assumes "ref_get env ref = Inr snapshot" and "snapshot_forEach env snapshot = Inr visited"
  shows "getResult env queryString COLLECTION ref props =
           Inr (map (\<lambda>ds. setData env (fromDocumentReference env (snapshot_ref env ds)) ds props)
                  visited)"
  using assms by (simp add: getResult_def pushDocuments_map)

theorem getResult_collection_witness:
  "ref_get sample_env (CollectionRef Root ''users'') =
     Inr (QuerySnap [DocumentSnap (DocumentRef (CollectionRef Root ''users'') ''b'') True,
                     DocumentSnap (DocumentRef (CollectionRef Root ''users'') ''a'') True])
   \<and> getResult sample_env ''users'' COLLECTION (CollectionRef Root ''users'') [] =
     Inr [Populated (DocumentRef (CollectionRef Root ''users'') ''b'')
            (DocumentSnap (DocumentRef (CollectionRef Root ''users'') ''b'') True) [],
          Populated (DocumentRef (CollectionRef Root ''users'') ''a'')
            (DocumentSnap (DocumentRef (CollectionRef Root ''users'') ''a'') True) []]"
  using getResult_collection [of sample_env "CollectionRef Root ''users''"
      "QuerySnap [DocumentSnap (DocumentRef (CollectionRef Root ''users'') ''b'') True,
                  DocumentSnap (DocumentRef (CollectionRef Root ''users'') ''a'') True]"
      "[DocumentSnap (DocumentRef (CollectionRef Root ''users'') ''b'') True,
        DocumentSnap (DocumentRef (CollectionRef Root ''users'') ''a'') True]"
      "''users''" "[]"]
  by (simp add: sample_env_def)

lemma setListener_Inr:
  "setListener env w queryType ref props l = Inr w' \<Longrightarrow>
     w' = w\<lparr>registrations := registrations w @
               [\<lparr>reg_queryType = queryType, reg_reference = ref,
                 reg_specificProperties = props, reg_listener = l\<rparr>],
             unsubscribeListener := Some (length (registrations w))\<rparr>"
  by (cases queryType) (auto simp: setListener_def split: option.splits)

lemma notify_keeps:
  "registrations (notify env w h n) = registrations w
   \<and> unsubscribeListener (notify env w h n) = unsubscribeListener w"
  by (cases n) (simp_all add: notify_def split: sum.splits)

text \<open>
  C5. A live subscription registered by \<open>setListener\<close>, in any later state \<open>w\<close> of the
  process in which its registration is still in the table. For a \<open>DOCUMENT\<close>
  subscription, a snapshot of a document that does not exist makes the one call
  \<^verbatim>\<open>onChangeListener(null, Error('No such document'))\<close>, and a snapshot of a document that
  exists makes the one call with a result of exactly one document and a \<^verbatim>\<open>null\<close> error.
  For a subscription of either query type, an error of the store makes the one call
  \<^verbatim>\<open>onChangeListener(null, error)\<close>. No notification registers anything with the store
  or touches the unsubscribe slot: the layer does not subscribe again after an error.
\<close>

theorem live_document_notifications:
  assumes "setListener env w0 queryType ref props l = Inr w1"
    and "length (registrations w0) < length (registrations w)"
    and "registrations w ! length (registrations w0) = registrations w1 ! length (registrations w0)"
  shows "(queryType = DOCUMENT \<longrightarrow>
            notify env w (length (registrations w0)) (Snapshot snapshot) =
              w\<lparr>calls := calls w @
                  [(l, if snapshot_exists env snapshot
                       then (Some \<lparr>documents =
                                     [setData env
                                        (fromDocumentReference env (snapshot_ref env snapshot))
                                        snapshot props],
                                   projected = (props \<noteq> [])\<rparr>,
                             None)
                       else (None, Some (Error ''No such document'')))]\<rparr>)
         \<and> notify env w (length (registrations w0)) (Failure e) =
             w\<lparr>calls := calls w @ [(l, (None, Some e))]\<rparr>
         \<and> registrations (notify env w (length (registrations w0)) n) = registrations w
         \<and> unsubscribeListener (notify env w (length (registrations w0)) n) =
             unsubscribeListener w"
proof -
  have "registrations w ! length (registrations w0) =
          \<lparr>reg_queryType = queryType, reg_reference = ref,
           reg_specificProperties = props, reg_listener = l\<rparr>"
    using setListener_Inr [OF assms(1)] assms(3) by simp
  then have "(queryType = DOCUMENT \<longrightarrow>
            notify env w (length (registrations w0)) (Snapshot snapshot) =
              w\<lparr>calls := calls w @
                  [(l, if snapshot_exists env snapshot
                       then (Some \<lparr>documents =
                                     [setData env
                                        (fromDocumentReference env (snapshot_ref env snapshot))
                                        snapshot props],
                                   projected = (props \<noteq> [])\<rparr>,
                             None)
                       else (None, Some (Error ''No such document'')))]\<rparr>)
         \<and> notify env w (length (registrations w0)) (Failure e) =
             w\<lparr>calls := calls w @ [(l, (None, Some e))]\<rparr>"
    using assms(2) by (simp add: notify_def onNext_def onError_def)
  then show ?thesis
    using notify_keeps [of env w "length (registrations w0)" n] by blast
qed

theorem live_document_notifications_witness:
  "setListener sample_env
     (idle :: (sample_ref, nat, sample_document) process) DOCUMENT
     (DocumentRef (CollectionRef Root ''users'') ''abc'') [''name''] 7 =
     Inr \<lparr>unsubscribeListener = Some 0,
          registrations =
            [\<lparr>reg_queryType = DOCUMENT,
              reg_reference = DocumentRef (CollectionRef Root ''users'') ''abc'',
              reg_specificProperties = [''name''], reg_listener = 7\<rparr>],
          calls = []\<rparr>
   \<and> calls (notify sample_env
         (\<lparr>unsubscribeListener = Some 0,
           registrations =
             [\<lparr>reg_queryType = DOCUMENT,
               reg_reference = DocumentRef (CollectionRef Root ''users'') ''abc'',
               reg_specificProperties = [''name''], reg_listener = 7\<rparr>],
           calls = []\<rparr> :: (sample_ref, nat, sample_document) process)
         0 (Snapshot (DocumentSnap (DocumentRef (CollectionRef Root ''users'') ''abc'') False))) =
       [(7, (None, Some (Error ''No such document'')))]
   \<and> calls (notify sample_env
         (\<lparr>unsubscribeListener = Some 0,
           registrations =
             [\<lparr>reg_queryType = DOCUMENT,
               reg_reference = DocumentRef (CollectionRef Root ''users'') ''abc'',
               reg_specificProperties = [''name''], reg_listener = 7\<rparr>],
           calls = []\<rparr> :: (sample_ref, nat, sample_document) process)
         0 (Snapshot (DocumentSnap (DocumentRef (CollectionRef Root ''users'') ''abc'') True))) =
       [(7, (Some \<lparr>documents =
                     [Populated (DocumentRef (CollectionRef Root ''users'') ''abc'')
                        (DocumentSnap (DocumentRef (CollectionRef Root ''users'') ''abc'') True)
                        [''name'']],
                   projected = True\<rparr>, None))]
   \<and> calls (notify sample_env
         (\<lparr>unsubscribeListener = Some 0,
           registrations =
             [\<lparr>reg_queryType = DOCUMENT,
               reg_reference = DocumentRef (CollectionRef Root ''users'') ''abc'',
               reg_specificProperties = [''name''], reg_listener = 7\<rparr>],
           calls = []\<rparr> :: (sample_ref, nat, sample_document) process)
         0 (Failure (Error ''unavailable''))) =
       [(7, (None, Some (Error ''unavailable'')))]"
  using live_document_notifications [where env = sample_env
      and ?w0.0 = "idle :: (sample_ref, nat, sample_document) process"
      and queryType = DOCUMENT
      and ref = "DocumentRef (CollectionRef Root ''users'') ''abc''"
      and props = "[''name'']" and l = 7
      and ?w1.0 = "\<lparr>unsubscribeListener = Some 0,
           registrations =
             [\<lparr>reg_queryType = DOCUMENT,
               reg_reference = DocumentRef (CollectionRef Root ''users'') ''abc'',
               reg_specificProperties = [''name''], reg_listener = 7\<rparr>],
           calls = []\<rparr>"
      and w = "\<lparr>unsubscribeListener = Some 0,
           registrations =
             [\<lparr>reg_queryType = DOCUMENT,
               reg_reference = DocumentRef (CollectionRef Root ''users'') ''abc'',
               reg_specificProperties = [''name''], reg_listener = 7\<rparr>],
           calls = []\<rparr>"
      and snapshot = "DocumentSnap (DocumentRef (CollectionRef Root ''users'') ''abc'') False"
      and e = "Error ''unavailable''"]
    live_document_notifications [where env = sample_env
      and ?w0.0 = "idle :: (sample_ref, nat, sample_document) process"
      and queryType = DOCUMENT
      and ref = "DocumentRef (CollectionRef Root ''users'') ''abc''"
      and props = "[''name'']" and l = 7
      and ?w1.0 = "\<lparr>unsubscribeListener = Some 0,
           registrations =
             [\<lparr>reg_queryType = DOCUMENT,
               reg_reference = DocumentRef (CollectionRef Root ''users'') ''abc'',
               reg_specificProperties = [''name''], reg_listener = 7\<rparr>],
           calls = []\<rparr>"
      and w = "\<lparr>unsubscribeListener = Some 0,
           registrations =
             [\<lparr>reg_queryType = DOCUMENT,
               reg_reference = DocumentRef (CollectionRef Root ''users'') ''abc'',
               reg_specificProperties = [''name''], reg_listener = 7\<rparr>],
           calls = []\<rparr>"
      and snapshot = "DocumentSnap (DocumentRef (CollectionRef Root ''users'') ''abc'') True"
      and e = "Error ''unavailable''"]
  by (simp add: sample_env_def setListener_def idle_def)

lemma parseQuery_after:
  "parseQuery env pre = Inr st \<Longrightarrow> parseQuery env (pre @ cs) = parseLoop env st cs"
  by (simp add: parseQuery_append)

text \<open>
  C6. A \<open>CollectionExpression\<close> reached while the cursor is not a collection reference is
  ignored as a whole: the state after it is the state before it, so that the cursor is
  unchanged and no refinement was applied, no error is raised, and the components after
  it are processed as if it had not been there.
\<close>

theorem collectionExpression_ignored:
  assumes "parseQuery env pre = Inr st"
    and "\<not> instanceofCollectionReference env (reference st)"
  shows "parseQuery env (pre @ [CollectionExpression es]) = Inr st
         \<and> parseQuery env (pre @ CollectionExpression es # rest) = parseQuery env (pre @ rest)"
  using assms by (simp add: parseQuery_after)

theorem collectionExpression_ignored_witness:
  "parseQuery sample_env [Literal ''users'', Literal ''abc''] =
     Inr \<lparr>reference = DocumentRef (CollectionRef Root ''users'') ''abc'', collection = True,
          specificProperties = [], documentExpression = False\<rparr>
   \<and> \<not> instanceofCollectionReference sample_env (DocumentRef (CollectionRef Root ''users'') ''abc'')
   \<and> parseQuery sample_env
       [Literal ''users'', Literal ''abc'', CollectionExpression [Where ''age'' ''>'' ''3'']] =
     Inr \<lparr>reference = DocumentRef (CollectionRef Root ''users'') ''abc'', collection = True,
          specificProperties = [], documentExpression = False\<rparr>
   \<and> parseQuery sample_env
       [Literal ''users'', Literal ''abc'', CollectionExpression [Where ''age'' ''>'' ''3''],
        Literal ''posts''] =
     parseQuery sample_env [Literal ''users'', Literal ''abc'', Literal ''posts'']"
  using collectionExpression_ignored [of sample_env "[Literal ''users'', Literal ''abc'']"
      "\<lparr>reference = DocumentRef (CollectionRef Root ''users'') ''abc'', collection = True,
        specificProperties = [], documentExpression = False\<rparr>"
      "[Where ''age'' ''>'' ''3'']" "[Literal ''posts'']"]
  by (simp add: sample_env_def parseQuery_def initialState_def)

lemma applyExpression_snoc:
  "applyExpression env r (es @ [e]) =
     bindE (applyExpression env r es) (\<lambda>r'. applyExpressionComponent env r' e)"
  unfolding applyExpression_append applyExpression_single ..

text \<open>
  C7. A \<open>CollectionExpression\<close> reached while the cursor is a collection reference
  applies its members to the cursor in the order in which they are listed, each to the
  handle that the members before it produced, none skipped for being a repetition:
  \<open>Where\<close> calls \<^verbatim>\<open>where\<close> with its field, operator and value, \<open>Limit\<close> calls \<^verbatim>\<open>limit\<close>
  with its limit, and \<open>Order\<close> calls \<^verbatim>\<open>orderBy\<close> with its field and with \<open>Asc\<close> when the
  direction is 1 and \<open>Desc\<close> for every other direction.
\<close>

theorem collectionExpression_in_order:
  assumes "parseQuery env pre = Inr st"
    and "instanceofCollectionReference env (reference st)"
  shows "parseQuery env (pre @ [CollectionExpression es]) =
           bindE (applyExpression env (reference st) es) (\<lambda>r. Inr (st\<lparr>reference := r\<rparr>))
         \<and> applyExpression env r [] = Inr r
         \<and> applyExpression env r (es' @ [Where field operator val]) =
             bindE (applyExpression env r es') (\<lambda>r'. ref_where env r' field operator val)
         \<and> applyExpression env r (es' @ [Limit n]) =
             bindE (applyExpression env r es') (\<lambda>r'. ref_limit env r' n)
         \<and> applyExpression env r (es' @ [Order field dir]) =
             bindE (applyExpression env r es')
               (\<lambda>r'. ref_orderBy env r' field (if dir = 1 then Asc else Desc))"
proof -
  have "parseQuery env (pre @ [CollectionExpression es]) =
          parseComponent env st (CollectionExpression es)"
    using assms(1) by (simp add: parseQuery_snoc)
  then have "parseQuery env (pre @ [CollectionExpression es]) =
           bindE (applyExpression env (reference st) es) (\<lambda>r. Inr (st\<lparr>reference := r\<rparr>))"
    using assms(2) by simp
  then show ?thesis
    unfolding applyExpression_snoc by simp
qed

theorem collectionExpression_in_order_witness:
  "parseQuery sample_env [Literal ''users''] =
     Inr \<lparr>reference = CollectionRef Root ''users'', collection = False,
          specificProperties = [], documentExpression = False\<rparr>
   \<and> instanceofCollectionReference sample_env (CollectionRef Root ''users'')
   \<and> parseQuery sample_env
       [Literal ''users'',
        CollectionExpression [Where ''age'' ''>'' ''3'', Order ''name'' 1, Limit 2,
                              Order ''age'' (- 1), Limit 2]] =
     Inr \<lparr>reference =
            LimitQuery (OrderQuery (LimitQuery (OrderQuery
              (WhereQuery (CollectionRef Root ''users'') ''age'' ''>'' ''3'')
              ''name'' Asc) 2) ''age'' Desc) 2,
          collection = False, specificProperties = [], documentExpression = False\<rparr>"
  using collectionExpression_in_order [of sample_env "[Literal ''users'']"
      "\<lparr>reference = CollectionRef Root ''users'', collection = False,
        specificProperties = [], documentExpression = False\<rparr>"
      "[Where ''age'' ''>'' ''3'', Order ''name'' 1, Limit 2, Order ''age'' (- 1), Limit 2]"]
  by (simp add: sample_env_def parseQuery_def initialState_def sample_where_def
        sample_limit_def sample_orderBy_def)

lemma tryQuery_live:
  "tryQuery env w q (Some l) = Inr (res, w') \<Longrightarrow>
     res = None \<and>
     (\<exists>cs p. parse env q = Inr cs \<and> parseQuery env cs = Inr p \<and>
        setListener env w (getQueryType cs) (reference p) (specificProperties p) l = Inr w')"
  by (auto simp: tryQuery_def bindE_def split: sum.splits)

lemma tryQuery_once:
  "tryQuery env w q None = Inr (res, w') \<Longrightarrow>
     w' = w \<and>
     (\<exists>cs p ds. parse env q = Inr cs \<and> parseQuery env cs = Inr p \<and>
        getResult env q (getQueryType cs) (reference p) (specificProperties p) = Inr ds \<and>
        res = Some \<lparr>documents = ds, projected = documentExpression p\<rparr>)"
  by (auto simp: tryQuery_def bindE_def split: sum.splits)

lemma query_Resolved:
  "query env w q ol = (Resolved res, w') \<longleftrightarrow> tryQuery env w q ol = Inr (res, w')"
  by (auto simp: query_def split: sum.splits option.splits)

lemma query_live:
  assumes "query env w q (Some l) = (Resolved res, w')"
  shows "\<exists>qt ref props.
           w' = w\<lparr>registrations := registrations w @
                     [\<lparr>reg_queryType = qt, reg_reference = ref,
                       reg_specificProperties = props, reg_listener = l\<rparr>],
                   unsubscribeListener := Some (length (registrations w))\<rparr>"
proof -
  from assms have "tryQuery env w q (Some l) = Inr (res, w')"
    by (simp add: query_Resolved)
  from tryQuery_live [OF this] obtain cs p where
    "parse env q = Inr cs" "parseQuery env cs = Inr p"
    "setListener env w (getQueryType cs) (reference p) (specificProperties p) l = Inr w'"
    by blast
  from setListener_Inr [OF this(3)] show ?thesis by blast
qed

lemma query_grows:
  "\<exists>new. registrations (snd (query env w q ol)) = registrations w @ new
     \<and> (unsubscribeListener (snd (query env w q ol)) = unsubscribeListener w
        \<or> unsubscribeListener (snd (query env w q ol)) = Some (length (registrations w)))"
proof (cases "tryQuery env w q ol")
  case (Inl e)
  then show ?thesis by (cases ol) (simp_all add: query_def)
next
  case (Inr a)
  obtain res w' where a: "a = (res, w')" by (cases a)
  show ?thesis
  proof (cases ol)
    case None
    with Inr a tryQuery_once [of env w q res w'] show ?thesis by (simp add: query_def)
  next
    case (Some l)
    with Inr a have "query env w q (Some l) = (Resolved res, w')" by (simp add: query_def)
    from query_live [OF this] Some show ?thesis
      using \<open>query env w q (Some l) = (Resolved res, w')\<close> by auto
  qed
qed

lemma run_grows:
  "\<exists>new. registrations (run env w evs) = registrations w @ new
     \<and> (unsubscribeListener (run env w evs) = unsubscribeListener w
        \<or> (\<exists>k\<ge>length (registrations w). unsubscribeListener (run env w evs) = Some k))"
proof (induction evs arbitrary: w)
  case Nil
  then show ?case by simp
next
  case (Cons ev evs)
  show ?case
  proof (cases ev)
    case (QueryCall q ol)
    let ?w = "snd (query env w q ol)"
    from query_grows [of env w q ol] obtain new1 where
      g: "registrations ?w = registrations w @ new1"
        "unsubscribeListener ?w = unsubscribeListener w
         \<or> unsubscribeListener ?w = Some (length (registrations w))" by blast
    from Cons.IH [of ?w] obtain new2 where
      r: "registrations (run env ?w evs) = registrations ?w @ new2"
        "unsubscribeListener (run env ?w evs) = unsubscribeListener ?w
         \<or> (\<exists>k\<ge>length (registrations ?w). unsubscribeListener (run env ?w evs) = Some k)" by blast
    have "registrations (run env w (ev # evs)) = registrations w @ (new1 @ new2)"
      using QueryCall g(1) r(1) by simp
    moreover have "unsubscribeListener (run env w (ev # evs)) = unsubscribeListener w
        \<or> (\<exists>k\<ge>length (registrations w). unsubscribeListener (run env w (ev # evs)) = Some k)"
      using QueryCall g r(2) by auto
    ultimately show ?thesis by blast
  next
    case (StoreNotification h n)
    with Cons.IH [of "notify env w h n"] show ?thesis by (simp add: notify_keeps)
  qed
qed

text \<open>
  C8. The process has the one unsubscribe slot of line 9, and every live query that is
  registered stores the handle of its own registration there. When a second live query
  is registered after a first one, the slot holds the handle of the second and no
  longer that of the first; whatever queries and store notifications follow, the
  registration of the first stays in the table of the store with its listener, the slot
  never holds its handle again, and a notification for it still calls the first
  listener.
\<close>

theorem unsubscribe_slot_overwritten:
  assumes "query env w q1 (Some l1) = (Resolved r1, w1)"
    and "query env w1 q2 (Some l2) = (Resolved r2, w2)"
  shows "unsubscribeListener w1 = Some (length (registrations w))
         \<and> unsubscribeListener w2 = Some (length (registrations w1))
         \<and> unsubscribeListener w2 \<noteq> unsubscribeListener w1
         \<and> length (registrations w) < length (registrations (run env w2 later))
         \<and> registrations (run env w2 later) ! length (registrations w) =
             registrations w1 ! length (registrations w)
         \<and> reg_listener (registrations (run env w2 later) ! length (registrations w)) = l1
         \<and> unsubscribeListener (run env w2 later) \<noteq> Some (length (registrations w))
         \<and> notify env (run env w2 later) (length (registrations w)) (Failure e) =
             (run env w2 later)\<lparr>calls := calls (run env w2 later) @ [(l1, (None, Some e))]\<rparr>"
proof -
  let ?h = "length (registrations w)"
  from query_live [OF assms(1)] obtain qt1 ref1 props1 where
    w1: "w1 = w\<lparr>registrations := registrations w @
                   [\<lparr>reg_queryType = qt1, reg_reference = ref1,
                     reg_specificProperties = props1, reg_listener = l1\<rparr>],
                 unsubscribeListener := Some ?h\<rparr>" by blast
  from query_live [OF assms(2)] obtain qt2 ref2 props2 where
    w2: "w2 = w1\<lparr>registrations := registrations w1 @
                   [\<lparr>reg_queryType = qt2, reg_reference = ref2,
                     reg_specificProperties = props2, reg_listener = l2\<rparr>],
                 unsubscribeListener := Some (length (registrations w1))\<rparr>" by blast
  from run_grows [of env w2 later] obtain new where
    g: "registrations (run env w2 later) = registrations w2 @ new"
      "unsubscribeListener (run env w2 later) = unsubscribeListener w2
       \<or> (\<exists>k\<ge>length (registrations w2). unsubscribeListener (run env w2 later) = Some k)"
    by blast
  have len1: "length (registrations w1) = Suc ?h" using w1 by simp
  have len2: "length (registrations w2) = Suc (Suc ?h)" using w2 len1 by simp
  have s1: "unsubscribeListener w1 = Some ?h" using w1 by simp
  have s2: "unsubscribeListener w2 = Some (length (registrations w1))" using w2 by simp
  have entry1: "registrations w1 ! ?h =
      \<lparr>reg_queryType = qt1, reg_reference = ref1,
       reg_specificProperties = props1, reg_listener = l1\<rparr>"
    using w1 by simp
  have "registrations w2 ! ?h = registrations w1 ! ?h"
    using w2 len1 by (simp add: nth_append)
  then have entry3: "registrations (run env w2 later) ! ?h = registrations w1 ! ?h"
    using g(1) len2 by (simp add: nth_append)
  have lt: "?h < length (registrations (run env w2 later))"
    using g(1) len2 by simp
  have s3: "unsubscribeListener (run env w2 later) \<noteq> Some ?h"
    using g(2) s2 len1 len2 by auto
  have fire: "notify env (run env w2 later) ?h (Failure e) =
             (run env w2 later)\<lparr>calls := calls (run env w2 later) @ [(l1, (None, Some e))]\<rparr>"
    using lt entry3 entry1 by (simp add: notify_def onError_def)
  show ?thesis
    using s1 s2 len1 lt entry3 entry1 s3 fire by simp
qed

theorem unsubscribe_slot_overwritten_witness:
  "query sample_env (idle :: (sample_ref, nat, sample_document) process) ''users/abc'' (Some 1) =
     (Resolved None,
      \<lparr>unsubscribeListener = Some 0,
       registrations =
         [\<lparr>reg_queryType = DOCUMENT,
           reg_reference = DocumentRef (CollectionRef Root ''users'') ''abc'',
           reg_specificProperties = [], reg_listener = 1\<rparr>],
       calls = []\<rparr>)
   \<and> query sample_env
        (\<lparr>unsubscribeListener = Some 0,
          registrations =
            [\<lparr>reg_queryType = DOCUMENT,
              reg_reference = DocumentRef (CollectionRef Root ''users'') ''abc'',
              reg_specificProperties = [], reg_listener = 1\<rparr>],
          calls = []\<rparr> :: (sample_ref, nat, sample_document) process)
        ''users'' (Some 2) =
     (Resolved None,
      \<lparr>unsubscribeListener = Some 1,
       registrations =
         [\<lparr>reg_queryType = DOCUMENT,
           reg_reference = DocumentRef (CollectionRef Root ''users'') ''abc'',
           reg_specificProperties = [], reg_listener = 1\<rparr>,
          \<lparr>reg_queryType = COLLECTION,
           reg_reference = CollectionRef Root ''users'',
           reg_specificProperties = [], reg_listener = 2\<rparr>],
       calls = []\<rparr>)
   \<and> calls (notify sample_env
        (run sample_env
          (\<lparr>unsubscribeListener = Some 1,
            registrations =
              [\<lparr>reg_queryType = DOCUMENT,
                reg_reference = DocumentRef (CollectionRef Root ''users'') ''abc'',
                reg_specificProperties = [], reg_listener = 1\<rparr>,
               \<lparr>reg_queryType = COLLECTION,
                reg_reference = CollectionRef Root ''users'',
                reg_specificProperties = [], reg_listener = 2\<rparr>],
            calls = []\<rparr> :: (sample_ref, nat, sample_document) process)
          [QueryCall ''users/abc'' None])
        0 (Failure (Error ''unavailable''))) =
     [(1, (None, Some (Error ''unavailable'')))]"
  using unsubscribe_slot_overwritten [where env = sample_env
      and w = "idle :: (sample_ref, nat, sample_document) process"
      and ?q1.0 = "''users/abc''" and ?l1.0 = 1 and ?r1.0 = None
      and ?w1.0 = "\<lparr>unsubscribeListener = Some 0,
          registrations =
            [\<lparr>reg_queryType = DOCUMENT,
              reg_reference = DocumentRef (CollectionRef Root ''users'') ''abc'',
              reg_specificProperties = [], reg_listener = 1\<rparr>],
          calls = []\<rparr>"
      and ?q2.0 = "''users''" and ?l2.0 = 2 and ?r2.0 = None
      and ?w2.0 = "\<lparr>unsubscribeListener = Some 1,
            registrations =
              [\<lparr>reg_queryType = DOCUMENT,
                reg_reference = DocumentRef (CollectionRef Root ''users'') ''abc'',
                reg_specificProperties = [], reg_listener = 1\<rparr>,
               \<lparr>reg_queryType = COLLECTION,
                reg_reference = CollectionRef Root ''users'',
                reg_specificProperties = [], reg_listener = 2\<rparr>],
            calls = []\<rparr>"
      and later = "[QueryCall ''users/abc'' None]"
      and e = "Error ''unavailable''"]
  by (simp add: sample_env_def query_def tryQuery_def parseQuery_def initialState_def
        getQueryType_def setListener_def getResult_def sample_parse_def idle_def)

lemma parseComponent_projection:
  "parseComponent env st c = Inr st' \<Longrightarrow>
     specificProperties st' =
       (case c of DocumentExpression ps \<Rightarrow> ps | _ \<Rightarrow> specificProperties st)
     \<and> documentExpression st' =
       (case c of DocumentExpression ps \<Rightarrow> True | _ \<Rightarrow> documentExpression st)"
  by (cases c) (auto simp: bindE_def split: if_splits sum.splits)

lemma parseLoop_projection:
  "parseLoop env st cs = Inr st' \<Longrightarrow>
     specificProperties st' =
       (case lastDocumentExpression cs of None \<Rightarrow> specificProperties st | Some ps \<Rightarrow> ps)
     \<and> documentExpression st' = (documentExpression st \<or> lastDocumentExpression cs \<noteq> None)"
proof (induction cs arbitrary: st)
  case Nil
  then show ?case by simp
next
  case (Cons c cs)
  from Cons.prems obtain st1 where
    c: "parseComponent env st c = Inr st1" and rest: "parseLoop env st1 cs = Inr st'"
    by (auto split: sum.splits)
  from Cons.IH [OF rest] parseComponent_projection [OF c] show ?case
    by (cases c) (auto split: option.splits)
qed

lemma parseQuery_projection:
  assumes "parseQuery env cs = Inr p"
  shows "specificProperties p = (case lastDocumentExpression cs of None \<Rightarrow> [] | Some ps \<Rightarrow> ps)"
    and "documentExpression p = (lastDocumentExpression cs \<noteq> None)"
proof -
  from assms obtain root where "parseLoop env (initialState root) cs = Inr p"
    by (auto simp: parseQuery_def bindE_def split: sum.splits)
  from parseLoop_projection [OF this]
  show "specificProperties p = (case lastDocumentExpression cs of None \<Rightarrow> [] | Some ps \<Rightarrow> ps)"
    and "documentExpression p = (lastDocumentExpression cs \<noteq> None)"
    by (auto simp: initialState_def split: option.splits)
qed

lemma lastDocumentExpression_None:
  "lastDocumentExpression cs = None \<longleftrightarrow> (\<forall>ps. DocumentExpression ps \<notin> set cs)"
proof (induction cs)
  case Nil
  then show ?case by simp
next
  case (Cons c cs)
  then show ?case by (cases c) (auto split: option.splits)
qed

lemma onNext_projected:
  "onNext env queryType props snapshot = Inr (Some result, err) \<Longrightarrow>
     projected result = (props \<noteq> [])"
  by (auto simp: onNext_def bindE_def split: if_splits sum.splits)

text \<open>
  C9, as stated, fails: \<open>parseQuery\<close> keeps the field list of the last
  \<open>DocumentExpression\<close> only. The query below contains a \<open>DocumentExpression\<close> with an
  empty field list, followed by one with the field \<open>name\<close>, and its live result is marked
  projected.
\<close>

theorem projected_flag_counterexample:
  "parse sample_env ''users/abc{}{name}'' =
     Inr [Literal ''users'', Literal ''abc'', DocumentExpression [],
          DocumentExpression [''name'']]
   \<and> DocumentExpression [] \<in>
       set [Literal ''users'', Literal ''abc'', DocumentExpression [],
            DocumentExpression [''name''] :: string component]
   \<and> calls (notify sample_env
         (snd (query sample_env (idle :: (sample_ref, nat, sample_document) process)
                 ''users/abc{}{name}'' (Some 7)))
         0 (Snapshot (DocumentSnap (DocumentRef (CollectionRef Root ''users'') ''abc'') True))) =
       [(7, (Some \<lparr>documents =
                     [Populated (DocumentRef (CollectionRef Root ''users'') ''abc'')
                        (DocumentSnap (DocumentRef (CollectionRef Root ''users'') ''abc'') True)
                        [''name'']],
                   projected = True\<rparr>, None))]"
  by (simp add: sample_env_def query_def tryQuery_def parseQuery_def initialState_def
        getQueryType_def setListener_def sample_parse_def idle_def notify_def onNext_def)

text \<open>
  C9, amended. The \<open>projected\<close> flag is computed differently in the two modes. The
  result of a one-shot query is marked projected exactly when the component sequence
  has a \<open>DocumentExpression\<close>, even one with an empty field list. A result that a live
  subscription delivers is marked projected exactly when the projection field list,
  which is the field list of the last \<open>DocumentExpression\<close> of the sequence, is not empty.
  So for a query whose last \<open>DocumentExpression\<close> has an empty field list the one-shot
  result is marked projected and no live result is.
\<close>

theorem projected_flag:
  assumes "parse env q = Inr cs"
  shows "(query env w q None = (Resolved (Some result), w') \<longrightarrow>
            projected result = (\<exists>ps. DocumentExpression ps \<in> set cs))
         \<and> (query env w q (Some l) = (Resolved r, w1) \<and>
             calls (notify env w1 (length (registrations w)) (Snapshot snapshot)) =
               calls w1 @ [(l', (Some liveResult, err))] \<longrightarrow>
            projected liveResult = (\<exists>ps. lastDocumentExpression cs = Some ps \<and> ps \<noteq> []))
         \<and> (lastDocumentExpression cs = Some [] \<and>
             query env w q None = (Resolved (Some result), w') \<and>
             query env w q (Some l) = (Resolved r, w1) \<and>
             calls (notify env w1 (length (registrations w)) (Snapshot snapshot)) =
               calls w1 @ [(l', (Some liveResult, err))] \<longrightarrow>
            projected result \<and> \<not> projected liveResult)"
proof -
  have once: "projected result = (\<exists>ps. DocumentExpression ps \<in> set cs)"
    if "query env w q None = (Resolved (Some result), w')"
  proof -
    from that have "tryQuery env w q None = Inr (Some result, w')"
      by (simp add: query_Resolved)
    from tryQuery_once [OF this] assms obtain p ds where
      "parseQuery env cs = Inr p" "result = \<lparr>documents = ds, projected = documentExpression p\<rparr>"
      by auto
    with parseQuery_projection(2) [of env cs p] lastDocumentExpression_None [of cs]
    show ?thesis by auto
  qed
  have live: "projected liveResult = (\<exists>ps. lastDocumentExpression cs = Some ps \<and> ps \<noteq> [])"
    if q: "query env w q (Some l) = (Resolved r, w1)"
      and n: "calls (notify env w1 (length (registrations w)) (Snapshot snapshot)) =
               calls w1 @ [(l', (Some liveResult, err))]"
  proof -
    from q have "tryQuery env w q (Some l) = Inr (r, w1)"
      by (simp add: query_Resolved)
    from tryQuery_live [OF this] assms obtain p where
      p: "parseQuery env cs = Inr p"
      and s: "setListener env w (getQueryType cs) (reference p) (specificProperties p) l = Inr w1"
      by auto
    have w1: "w1 = w\<lparr>registrations := registrations w @
               [\<lparr>reg_queryType = getQueryType cs, reg_reference = reference p,
                 reg_specificProperties = specificProperties p, reg_listener = l\<rparr>],
             unsubscribeListener := Some (length (registrations w))\<rparr>"
      using setListener_Inr [OF s] .
    have "onNext env (getQueryType cs) (specificProperties p) snapshot = Inr (Some liveResult, err)"
      using n unfolding w1 by (simp add: notify_def split: sum.splits)
    from onNext_projected [OF this] parseQuery_projection(1) [OF p]
    show ?thesis by (auto split: option.splits)
  qed
  from once live lastDocumentExpression_None [of cs] show ?thesis by auto
qed

theorem projected_flag_witness:
  "parse sample_env ''users/abc{}'' =
     Inr [Literal ''users'', Literal ''abc'', DocumentExpression []]
   \<and> lastDocumentExpression
        [Literal ''users'', Literal ''abc'', DocumentExpression [] :: string component] = Some []
   \<and> query sample_env (idle :: (sample_ref, nat, sample_document) process) ''users/abc{}'' None =
       (Resolved (Some \<lparr>documents =
                          [Populated (DocumentRef (CollectionRef Root ''users'') ''abc'')
                             (DocumentSnap (DocumentRef (CollectionRef Root ''users'') ''abc'') True)
                             []],
                        projected = True\<rparr>),
        idle)
   \<and> query sample_env (idle :: (sample_ref, nat, sample_document) process) ''users/abc{}''
        (Some 7) =
       (Resolved None,
        \<lparr>unsubscribeListener = Some 0,
         registrations =
           [\<lparr>reg_queryType = DOCUMENT,
             reg_reference = DocumentRef (CollectionRef Root ''users'') ''abc'',
             reg_specificProperties = [], reg_listener = 7\<rparr>],
         calls = []\<rparr>)
   \<and> calls (notify sample_env
         (\<lparr>unsubscribeListener = Some 0,
           registrations =
             [\<lparr>reg_queryType = DOCUMENT,
               reg_reference = DocumentRef (CollectionRef Root ''users'') ''abc'',
               reg_specificProperties = [], reg_listener = 7\<rparr>],
           calls = []\<rparr> :: (sample_ref, nat, sample_document) process)
         0 (Snapshot (DocumentSnap (DocumentRef (CollectionRef Root ''users'') ''abc'') True))) =
       [(7, (Some \<lparr>documents =
                     [Populated (DocumentRef (CollectionRef Root ''users'') ''abc'')
                        (DocumentSnap (DocumentRef (CollectionRef Root ''users'') ''abc'') True)
                        []],
                   projected = False\<rparr>, None))]"
  using projected_flag [where env = sample_env and q = "''users/abc{}''"
      and cs = "[Literal ''users'', Literal ''abc'', DocumentExpression []]"
      and w = "idle :: (sample_ref, nat, sample_document) process"
      and w' = "idle :: (sample_ref, nat, sample_document) process"
      and result = "\<lparr>documents =
                          [Populated (DocumentRef (CollectionRef Root ''users'') ''abc'')
                             (DocumentSnap (DocumentRef (CollectionRef Root ''users'') ''abc'') True)
                             []],
                        projected = True\<rparr>"
      and l = 7 and r = None
      and ?w1.0 = "\<lparr>unsubscribeListener = Some 0,
           registrations =
             [\<lparr>reg_queryType = DOCUMENT,
               reg_reference = DocumentRef (CollectionRef Root ''users'') ''abc'',
               reg_specificProperties = [], reg_listener = 7\<rparr>],
           calls = []\<rparr>"
      and snapshot = "DocumentSnap (DocumentRef (CollectionRef Root ''users'') ''abc'') True"
      and l' = 7
      and liveResult = "\<lparr>documents =
                     [Populated (DocumentRef (CollectionRef Root ''users'') ''abc'')
                        (DocumentSnap (DocumentRef (CollectionRef Root ''users'') ''abc'') True)
                        []],
                   projected = False\<rparr>"
      and err = None]
  by (simp add: sample_env_def query_def tryQuery_def parseQuery_def initialState_def
        getQueryType_def setListener_def getResult_def sample_parse_def idle_def notify_def
        onNext_def)

text \<open>
  C10. With a change listener, an error thrown while the query string is parsed, while
  the reference is built or while the listener is registered is signalled twice: the
  listener is called with \<^verbatim>\<open>(null, error)\<close>, and the promise that \<open>query\<close> returns is
  rejected with the same error. (\<open>getQueryType\<close> has no failing branch.)
\<close>

theorem query_failure_two_channels:
  assumes "parse env q = Inl e
           \<or> (\<exists>cs. parse env q = Inr cs \<and>
                 (parseQuery env cs = Inl e
                  \<or> (\<exists>p. parseQuery env cs = Inr p \<and>
                          ref_onSnapshot env (reference p) = Some e)))"
  shows "query env w q (Some l) =
           (Rejected e, w\<lparr>calls := calls w @ [(l, (None, Some e))]\<rparr>)"
proof -
  have "tryQuery env w q (Some l) = Inl e"
    using assms by (auto simp: tryQuery_def setListener_def)
  then show ?thesis by (simp add: query_def)
qed

theorem query_failure_two_channels_witness:
  "parse sample_env ''??'' = Inl (Error ''SyntaxError'')
   \<and> query sample_env (idle :: (sample_ref, nat, sample_document) process) ''??'' (Some 7) =
       (Rejected (Error ''SyntaxError''),
        \<lparr>unsubscribeListener = None, registrations = [],
         calls = [(7, (None, Some (Error ''SyntaxError'')))]\<rparr>)
   \<and> parse sample_env ''users/*/abc'' = Inr [Literal ''users'', AllC, Literal ''abc'']
   \<and> parseQuery sample_env [Literal ''users'', AllC, Literal ''abc''] =
       Inl (Error ''reference.collection is not a function'')
   \<and> query sample_env (idle :: (sample_ref, nat, sample_document) process) ''users/*/abc''
        (Some 7) =
       (Rejected (Error ''reference.collection is not a function''),
        \<lparr>unsubscribeListener = None, registrations = [],
         calls = [(7, (None, Some (Error ''reference.collection is not a function'')))]\<rparr>)
   \<and> parse sample_env ''/'' = Inr []
   \<and> parseQuery sample_env [] =
       Inr \<lparr>reference = Root, collection = True, specificProperties = [],
            documentExpression = False\<rparr>
   \<and> ref_onSnapshot sample_env Root = Some (Error ''reference.onSnapshot is not a function'')
   \<and> query sample_env (idle :: (sample_ref, nat, sample_document) process) ''/'' (Some 7) =
       (Rejected (Error ''reference.onSnapshot is not a function''),
        \<lparr>unsubscribeListener = None, registrations = [],
         calls = [(7, (None, Some (Error ''reference.onSnapshot is not a function'')))]\<rparr>)"
  using query_failure_two_channels [where env = sample_env and q = "''??''"
      and e = "Error ''SyntaxError''"
      and w = "idle :: (sample_ref, nat, sample_document) process" and l = 7]
    query_failure_two_channels [where env = sample_env and q = "''users/*/abc''"
      and e = "Error ''reference.collection is not a function''"
      and w = "idle :: (sample_ref, nat, sample_document) process" and l = 7]
    query_failure_two_channels [where env = sample_env and q = "''/''"
      and e = "Error ''reference.onSnapshot is not a function''"
      and w = "idle :: (sample_ref, nat, sample_document) process" and l = 7]
  by (simp add: sample_env_def sample_parse_def parseQuery_def initialState_def idle_def)

end
